theory Spec2Isabelle
  imports Main "HOL-Library.Word"
begin

unbundle bit_operations_syntax

section \<open>Narrow float types\<close>

text \<open>
  A 32-bit \<open>float\<close> is represented by its IEEE-754 bit pattern, the value that
  \<open>std::bit_cast<uint32_t>\<close> reads; \<open>bit_cast\<close> in either direction is then the
  identity on \<open>32 word\<close>. Equality of floats below is equality of bit patterns.
\<close>

type_synonym float_bits = "32 word"

text \<open>\<open>struct bfloat16_t { uint16_t value; }\<close>\<close>

datatype bfloat16_t = Bfloat16 (bf16_value: "16 word")

text \<open>
  \<open>explicit constexpr bfloat16_t(float f)\<close>:
  \<open>temp = bit_cast<uint32_t>(f); value = static_cast<uint16_t>(temp >> 16)\<close>.
\<close>

definition bfloat16_of_float :: "float_bits \<Rightarrow> bfloat16_t" where
  "bfloat16_of_float f =
     (let temp = f :: 32 word
      in Bfloat16 (ucast (drop_bit 16 temp)))"

text \<open>
  \<open>constexpr operator float()\<close>:
  \<open>temp = static_cast<uint32_t>(value) << 16; return bit_cast<float>(temp)\<close>.
\<close>

definition float_of_bfloat16 :: "bfloat16_t \<Rightarrow> float_bits" where
  "float_of_bfloat16 b =
     (let temp = push_bit 16 (ucast (bf16_value b) :: 32 word)
      in temp)"

section \<open>DType descriptors\<close>

text \<open>
  Modelled from the spec: the \<open>DType\<close> class (shortfin/array/dtype.h) is not among the
  sources. The spec describes it as an opaque, comparable, nameable tag with the
  classification queries \<open>is_boolean\<close>, \<open>is_integer\<close>, \<open>is_float\<close>, \<open>is_complex\<close>,
  \<open>bit_count\<close> and signedness. The tags are the fourteen that the dispatch tables of
  the source name (\<open>DType::float16()\<close>, ...), together with one boolean and two
  complex tags for the two further classes that \<open>DTypePromotionRank\<close> tests.
\<close>

datatype DType =
    bool8
  | uint8 | int8 | uint16 | int16 | uint32 | int32 | uint64 | int64
  | float8_e4m3fnuz | float8_e4m3fn | float16 | bfloat16 | float32 | float64
  | complex64 | complex128

text \<open>Modelled from the spec: \<open>DType::name()\<close>, the tag's identifier.\<close>

fun DType_name :: "DType \<Rightarrow> string" where
  "DType_name bool8 = ''bool8''"
| "DType_name uint8 = ''uint8''"
| "DType_name int8 = ''int8''"
| "DType_name uint16 = ''uint16''"
| "DType_name int16 = ''int16''"
| "DType_name uint32 = ''uint32''"
| "DType_name int32 = ''int32''"
| "DType_name uint64 = ''uint64''"
| "DType_name int64 = ''int64''"
| "DType_name float8_e4m3fnuz = ''float8_e4m3fnuz''"
| "DType_name float8_e4m3fn = ''float8_e4m3fn''"
| "DType_name float16 = ''float16''"
| "DType_name bfloat16 = ''bfloat16''"
| "DType_name float32 = ''float32''"
| "DType_name float64 = ''float64''"
| "DType_name complex64 = ''complex64''"
| "DType_name complex128 = ''complex128''"

text \<open>Modelled from the spec: the four classification queries, one class per tag.\<close>

fun is_boolean :: "DType \<Rightarrow> bool" where
  "is_boolean bool8 = True"
| "is_boolean _ = False"

fun is_integer :: "DType \<Rightarrow> bool" where
  "is_integer uint8 = True"
| "is_integer int8 = True"
| "is_integer uint16 = True"
| "is_integer int16 = True"
| "is_integer uint32 = True"
| "is_integer int32 = True"
| "is_integer uint64 = True"
| "is_integer int64 = True"
| "is_integer _ = False"

fun is_float :: "DType \<Rightarrow> bool" where
  "is_float float8_e4m3fnuz = True"
| "is_float float8_e4m3fn = True"
| "is_float float16 = True"
| "is_float bfloat16 = True"
| "is_float float32 = True"
| "is_float float64 = True"
| "is_float _ = False"

fun is_complex :: "DType \<Rightarrow> bool" where
  "is_complex complex64 = True"
| "is_complex complex128 = True"
| "is_complex _ = False"

text \<open>Modelled from the spec: \<open>DType::bit_count()\<close>, the width the tag's name carries.\<close>

fun bit_count :: "DType \<Rightarrow> nat" where
  "bit_count bool8 = 8"
| "bit_count uint8 = 8"
| "bit_count int8 = 8"
| "bit_count uint16 = 16"
| "bit_count int16 = 16"
| "bit_count uint32 = 32"
| "bit_count int32 = 32"
| "bit_count uint64 = 64"
| "bit_count int64 = 64"
| "bit_count float8_e4m3fnuz = 8"
| "bit_count float8_e4m3fn = 8"
| "bit_count float16 = 16"
| "bit_count bfloat16 = 16"
| "bit_count float32 = 32"
| "bit_count float64 = 64"
| "bit_count complex64 = 64"
| "bit_count complex128 = 128"

text \<open>
  Modelled from the spec: the signedness query. In the source it is the test
  \<open>iree_all_bits_set(dtype.numerical_type(), IREE_HAL_NUMERICAL_TYPE_INTEGER_UNSIGNED)\<close>,
  whose constants are not among the sources; it holds of the unsigned integer tags.
\<close>

fun is_unsigned :: "DType \<Rightarrow> bool" where
  "is_unsigned uint8 = True"
| "is_unsigned uint16 = True"
| "is_unsigned uint32 = True"
| "is_unsigned uint64 = True"
| "is_unsigned _ = False"

section \<open>DType promotion\<close>

text \<open>Every failure of the source is a thrown \<open>std::invalid_argument\<close> with its message.\<close>

datatype error = invalid_argument string

text \<open>\<open>int DTypePromotionRank(DType dtype)\<close>\<close>

definition DTypePromotionRank :: "DType \<Rightarrow> int" where
  "DTypePromotionRank d =
     (let rank = (1 :: int);
          rank = (if is_boolean d then rank * 1000
                  else if is_integer d then rank * 2000
                  else if is_float d then rank * 4000
                  else if is_complex d then rank * 8000
                  else rank)
      in rank + int (bit_count d))"

text \<open>
  The local \<open>promoted_dtype\<close> of \<open>PromoteArithmeticTypes\<close>:
  \<open>lhs_rank < rhs_rank ? *rhs_dtype : *lhs_dtype\<close>.
\<close>

definition promoted_dtype :: "DType \<Rightarrow> DType \<Rightarrow> DType" where
  "promoted_dtype lhs rhs =
     (let lhs_rank = DTypePromotionRank lhs;
          rhs_rank = DTypePromotionRank rhs
      in if lhs_rank < rhs_rank then rhs else lhs)"

text \<open>
  \<open>DType PromoteArithmeticTypes(std::optional<DType> lhs_dtype,
  std::optional<DType> rhs_dtype)\<close>
\<close>

fun PromoteArithmeticTypes :: "DType option \<Rightarrow> DType option \<Rightarrow> error + DType" where
  "PromoteArithmeticTypes None None =
     Inl (invalid_argument
       ''Elementwise operators require at least one argument to be a device_array'')"
| "PromoteArithmeticTypes None (Some rhs) = Inr rhs"
| "PromoteArithmeticTypes (Some lhs) None = Inr lhs"
| "PromoteArithmeticTypes (Some lhs) (Some rhs) =
     (let p = promoted_dtype lhs rhs
      in if is_integer p then
           (let lhs_unsigned = is_unsigned lhs;
                rhs_unsigned = is_unsigned rhs
            in if (lhs_unsigned \<or> rhs_unsigned) \<and> \<not> (lhs_unsigned \<and> rhs_unsigned) then
                 (case p of
                    uint8 \<Rightarrow> Inr int16
                  | int8 \<Rightarrow> Inr int16
                  | uint16 \<Rightarrow> Inr int32
                  | int16 \<Rightarrow> Inr int32
                  | uint32 \<Rightarrow> Inr int64
                  | int32 \<Rightarrow> Inr int64
                  | _ \<Rightarrow> Inr int64)
               else Inr p)
         else Inr p)"

section \<open>Element types and dispatch tables\<close>

text \<open>
  The C++ element types at which the generic kernels are instantiated (the \<open>cpp_type\<close>
  argument of \<open>SF_UNARY_THUNK_CASE\<close>, \<open>SF_UNARY_FUNCTION_CASE\<close> and \<open>SF_STORE_CASE\<close>);
  \<open>cpp_half\<close> is \<open>half_float::half\<close>.
\<close>

datatype cpp_type =
    cpp_f8e4m3fnuz_t | cpp_f8e4m3fn_t | cpp_half | cpp_bfloat16_t | cpp_float | cpp_double
  | cpp_uint8_t | cpp_int8_t | cpp_uint16_t | cpp_int16_t
  | cpp_uint32_t | cpp_int32_t | cpp_uint64_t | cpp_int64_t

text \<open>
  Each \<open>switch\<close> over dtype tags is a table from the tag to the element type of the
  matching \<open>case\<close>, in the order of the source; \<open>None\<close> is the \<open>default:\<close> branch.
  First the store switch of \<open>ConvertFunctor\<close> (the \<open>SF_STORE_CASE\<close> lines of its lambda).
\<close>

fun ConvertFunctor_store_case :: "DType \<Rightarrow> cpp_type option" where
  "ConvertFunctor_store_case float16 = Some cpp_half"
| "ConvertFunctor_store_case float8_e4m3fnuz = Some cpp_f8e4m3fnuz_t"
| "ConvertFunctor_store_case float8_e4m3fn = Some cpp_f8e4m3fn_t"
| "ConvertFunctor_store_case bfloat16 = Some cpp_bfloat16_t"
| "ConvertFunctor_store_case float32 = Some cpp_float"
| "ConvertFunctor_store_case float64 = Some cpp_double"
| "ConvertFunctor_store_case uint8 = Some cpp_uint8_t"
| "ConvertFunctor_store_case int8 = Some cpp_int8_t"
| "ConvertFunctor_store_case uint16 = Some cpp_uint16_t"
| "ConvertFunctor_store_case int16 = Some cpp_int16_t"
| "ConvertFunctor_store_case uint32 = Some cpp_uint32_t"
| "ConvertFunctor_store_case int32 = Some cpp_int32_t"
| "ConvertFunctor_store_case uint64 = Some cpp_uint64_t"
| "ConvertFunctor_store_case int64 = Some cpp_int64_t"
| "ConvertFunctor_store_case _ = None"

text \<open>The dispatch switch of \<open>ConvertFunctor::Invoke\<close> on \<open>input.dtype()\<close>.\<close>

fun ConvertFunctor_input_case :: "DType \<Rightarrow> cpp_type option" where
  "ConvertFunctor_input_case float8_e4m3fnuz = Some cpp_f8e4m3fnuz_t"
| "ConvertFunctor_input_case float8_e4m3fn = Some cpp_f8e4m3fn_t"
| "ConvertFunctor_input_case float16 = Some cpp_half"
| "ConvertFunctor_input_case bfloat16 = Some cpp_bfloat16_t"
| "ConvertFunctor_input_case float32 = Some cpp_float"
| "ConvertFunctor_input_case float64 = Some cpp_double"
| "ConvertFunctor_input_case uint8 = Some cpp_uint8_t"
| "ConvertFunctor_input_case int8 = Some cpp_int8_t"
| "ConvertFunctor_input_case uint16 = Some cpp_uint16_t"
| "ConvertFunctor_input_case int16 = Some cpp_int16_t"
| "ConvertFunctor_input_case uint32 = Some cpp_uint32_t"
| "ConvertFunctor_input_case int32 = Some cpp_uint32_t"
| "ConvertFunctor_input_case uint64 = Some cpp_uint64_t"
| "ConvertFunctor_input_case int64 = Some cpp_int64_t"
| "ConvertFunctor_input_case _ = None"

text \<open>
  The store switch of \<open>ConvertRoundFunctor\<close>, \<open>ConvertCeilFunctor\<close>,
  \<open>ConvertFloorFunctor\<close> and \<open>ConvertTruncFunctor\<close> (the same six lines in each).
\<close>

fun ConvertNearest_store_case :: "DType \<Rightarrow> cpp_type option" where
  "ConvertNearest_store_case uint8 = Some cpp_uint8_t"
| "ConvertNearest_store_case int8 = Some cpp_int8_t"
| "ConvertNearest_store_case uint16 = Some cpp_uint16_t"
| "ConvertNearest_store_case int16 = Some cpp_int16_t"
| "ConvertNearest_store_case uint32 = Some cpp_uint32_t"
| "ConvertNearest_store_case int32 = Some cpp_int32_t"
| "ConvertNearest_store_case _ = None"

text \<open>The dispatch switch of the same four functors (the same five lines in each).\<close>

fun ConvertNearest_input_case :: "DType \<Rightarrow> cpp_type option" where
  "ConvertNearest_input_case float8_e4m3fnuz = Some cpp_f8e4m3fnuz_t"
| "ConvertNearest_input_case float8_e4m3fn = Some cpp_f8e4m3fn_t"
| "ConvertNearest_input_case float16 = Some cpp_half"
| "ConvertNearest_input_case bfloat16 = Some cpp_bfloat16_t"
| "ConvertNearest_input_case float32 = Some cpp_float"
| "ConvertNearest_input_case _ = None"

text \<open>The dispatch switch of \<open>ElementwiseOperation\<close> on the promoted dtype.\<close>

fun ElementwiseOperation_case :: "DType \<Rightarrow> cpp_type option" where
  "ElementwiseOperation_case float8_e4m3fnuz = Some cpp_f8e4m3fnuz_t"
| "ElementwiseOperation_case float8_e4m3fn = Some cpp_f8e4m3fn_t"
| "ElementwiseOperation_case float16 = Some cpp_half"
| "ElementwiseOperation_case bfloat16 = Some cpp_bfloat16_t"
| "ElementwiseOperation_case float32 = Some cpp_float"
| "ElementwiseOperation_case float64 = Some cpp_double"
| "ElementwiseOperation_case uint8 = Some cpp_uint8_t"
| "ElementwiseOperation_case int8 = Some cpp_int8_t"
| "ElementwiseOperation_case uint16 = Some cpp_uint16_t"
| "ElementwiseOperation_case int16 = Some cpp_int16_t"
| "ElementwiseOperation_case uint32 = Some cpp_uint32_t"
| "ElementwiseOperation_case int32 = Some cpp_uint32_t"
| "ElementwiseOperation_case uint64 = Some cpp_uint64_t"
| "ElementwiseOperation_case int64 = Some cpp_int64_t"
| "ElementwiseOperation_case _ = None"

section \<open>Elements and casts\<close>

text \<open>
  An array stores one raw bit pattern per element (a natural number below \<open>2 ^ width\<close>);
  a typed view (\<open>map_xtensor<EltTy>\<close>) decides how a pattern is read. For the integral
  element types the reading and \<open>static_cast\<close> between them are those of C++:
  two's complement, conversion modulo \<open>2 ^ width\<close>.
\<close>

fun is_integral :: "cpp_type \<Rightarrow> bool" where
  "is_integral cpp_uint8_t = True"
| "is_integral cpp_int8_t = True"
| "is_integral cpp_uint16_t = True"
| "is_integral cpp_int16_t = True"
| "is_integral cpp_uint32_t = True"
| "is_integral cpp_int32_t = True"
| "is_integral cpp_uint64_t = True"
| "is_integral cpp_int64_t = True"
| "is_integral _ = False"

fun is_signed_integral :: "cpp_type \<Rightarrow> bool" where
  "is_signed_integral cpp_int8_t = True"
| "is_signed_integral cpp_int16_t = True"
| "is_signed_integral cpp_int32_t = True"
| "is_signed_integral cpp_int64_t = True"
| "is_signed_integral _ = False"

fun width :: "cpp_type \<Rightarrow> nat" where
  "width cpp_f8e4m3fnuz_t = 8"
| "width cpp_f8e4m3fn_t = 8"
| "width cpp_half = 16"
| "width cpp_bfloat16_t = 16"
| "width cpp_float = 32"
| "width cpp_double = 64"
| "width cpp_uint8_t = 8"
| "width cpp_int8_t = 8"
| "width cpp_uint16_t = 16"
| "width cpp_int16_t = 16"
| "width cpp_uint32_t = 32"
| "width cpp_int32_t = 32"
| "width cpp_uint64_t = 64"
| "width cpp_int64_t = 64"

definition read_int :: "cpp_type \<Rightarrow> nat \<Rightarrow> int" where
  "read_int t v =
     (let b = v mod 2 ^ width t
      in if is_signed_integral t \<and> 2 ^ (width t - 1) \<le> b
         then int b - 2 ^ width t else int b)"

definition write_int :: "cpp_type \<Rightarrow> int \<Rightarrow> nat" where
  "write_int t i = nat (i mod 2 ^ width t)"

text \<open>
  What the kernels take from outside the source: the casts with a floating-point side
  (hardware conversions, \<open>half_float\<close>, the \<open>iree_math\<close> fp8 routines) and the four
  elementwise nearest-integer functions of xtensor, all on raw patterns.
\<close>

datatype nearest_fn = xt_round | xt_ceil | xt_floor | xt_trunc

record xt_ops =
  static_cast_fp :: "cpp_type \<Rightarrow> cpp_type \<Rightarrow> nat \<Rightarrow> nat"
  nearest :: "nearest_fn \<Rightarrow> cpp_type \<Rightarrow> nat \<Rightarrow> nat"

text \<open>\<open>xt::cast<cpp_type>\<close> applied to one element read as \<open>EltTy\<close>.\<close>

definition xt_cast :: "xt_ops \<Rightarrow> cpp_type \<Rightarrow> cpp_type \<Rightarrow> nat \<Rightarrow> nat" where
  "xt_cast X EltTy t v =
     (if is_integral EltTy \<and> is_integral t then write_int t (read_int EltTy v)
      else static_cast_fp X EltTy t v)"

section \<open>Arrays and the conversion kernels\<close>

record device_array =
  dtype :: DType
  shape :: "nat list"
  data :: "nat list"

text \<open>
  \<open>device_array::for_host(device, shape, dtype, device_visible)\<close> allocates a fresh
  buffer; every call is recorded. The contents of a fresh buffer are taken as zeros.
\<close>

datatype allocation = for_host_call "nat list" DType bool

definition for_host :: "nat list \<Rightarrow> DType \<Rightarrow> bool \<Rightarrow> device_array" where
  "for_host shp dt device_visible =
     \<lparr>dtype = dt, shape = shp, data = replicate (prod_list shp) 0\<rparr>"

text \<open>
  \<open>ConvertFunctor::Invoke(input, dtype, out)\<close>. The result is the array \<open>out\<close> after the
  call, or the exception; every \<open>throw\<close> of the source precedes the one assignment to
  \<open>*out_t\<close>, so a failing call leaves \<open>out\<close> as it was.
\<close>

definition ConvertFunctor_Invoke ::
  "xt_ops \<Rightarrow> device_array \<Rightarrow> DType \<Rightarrow> device_array \<Rightarrow> error + device_array" where
  "ConvertFunctor_Invoke X inp dt outp =
     (case ConvertFunctor_input_case (dtype inp) of
        Some EltTy \<Rightarrow>
          (let input_t = data inp
           in case ConvertFunctor_store_case dt of
                Some t \<Rightarrow> Inr (outp\<lparr>data := map (xt_cast X EltTy t) input_t\<rparr>)
              | None \<Rightarrow> Inl (invalid_argument ''Invalid output dtype for convert op''))
      | None \<Rightarrow>
          Inl (invalid_argument
            (''Unsupported dtype('' @ DType_name dt @ '') for converting nearest integer op'')))"

text \<open>
  \<open>ConvertRoundFunctor::Invoke\<close>, \<open>ConvertCeilFunctor::Invoke\<close>,
  \<open>ConvertFloorFunctor::Invoke\<close> and \<open>ConvertTruncFunctor::Invoke\<close> have one body, up to
  the xtensor function (\<open>xt::round\<close>, \<open>xt::ceil\<close>, \<open>xt::floor\<close>, \<open>xt::trunc\<close>) that
  computes \<open>rounded\<close>.
\<close>

definition ConvertNearest_Invoke ::
  "nearest_fn \<Rightarrow> xt_ops \<Rightarrow> device_array \<Rightarrow> DType \<Rightarrow> device_array \<Rightarrow> error + device_array" where
  "ConvertNearest_Invoke f X inp dt outp =
     (case ConvertNearest_input_case (dtype inp) of
        Some EltTy \<Rightarrow>
          (let input_t = data inp;
               rounded = map (nearest X f EltTy) input_t
           in if dtype inp = dt then Inr (outp\<lparr>data := rounded\<rparr>)
              else (case ConvertNearest_store_case dt of
                      Some t \<Rightarrow> Inr (outp\<lparr>data := map (xt_cast X EltTy t) rounded\<rparr>)
                    | None \<Rightarrow>
                        Inl (invalid_argument
                          ''Invalid output dtype for converting nearest integer op'')))
      | None \<Rightarrow>
          Inl (invalid_argument
            (''Unsupported dtype('' @ DType_name dt @ '') for converting nearest integer op'')))"

text \<open>The template argument \<open>ConvertFunc\<close> of \<open>GenericElementwiseConvert\<close>.\<close>

datatype ConvertFunc =
    ConvertFunctor | ConvertRoundFunctor | ConvertCeilFunctor
  | ConvertFloorFunctor | ConvertTruncFunctor

fun Invoke ::
  "ConvertFunc \<Rightarrow> xt_ops \<Rightarrow> device_array \<Rightarrow> DType \<Rightarrow> device_array \<Rightarrow> error + device_array" where
  "Invoke ConvertFunctor = ConvertFunctor_Invoke"
| "Invoke ConvertRoundFunctor = ConvertNearest_Invoke xt_round"
| "Invoke ConvertCeilFunctor = ConvertNearest_Invoke xt_ceil"
| "Invoke ConvertFloorFunctor = ConvertNearest_Invoke xt_floor"
| "Invoke ConvertTruncFunctor = ConvertNearest_Invoke xt_trunc"

text \<open>The dispatch table of a functor: the dtypes of its supported subset.\<close>

fun input_case :: "ConvertFunc \<Rightarrow> DType \<Rightarrow> cpp_type option" where
  "input_case ConvertFunctor = ConvertFunctor_input_case"
| "input_case _ = ConvertNearest_input_case"

text \<open>
  \<open>GenericElementwiseConvert<ConvertFunc>(input, dtype, out, device_visible)\<close>: the
  buffers allocated by the call, and the returned array or the exception.
\<close>

definition GenericElementwiseConvert ::
  "ConvertFunc \<Rightarrow> xt_ops \<Rightarrow> device_array \<Rightarrow> DType option \<Rightarrow> device_array option \<Rightarrow> bool
     \<Rightarrow> allocation list \<times> (error + device_array)" where
  "GenericElementwiseConvert func X inp dtype_opt out_opt device_visible =
     (case (case dtype_opt of
              None \<Rightarrow> Inr (case out_opt of Some outp \<Rightarrow> dtype outp | None \<Rightarrow> dtype inp)
            | Some dt \<Rightarrow>
                (case out_opt of
                   Some outp \<Rightarrow>
                     if dtype outp \<noteq> dt
                     then Inl (invalid_argument
                            ''if both dtype and out are specified, they must match'')
                     else Inr dt
                 | None \<Rightarrow> Inr dt)) of
        Inl e \<Rightarrow> ([], Inl e)
      | Inr dt \<Rightarrow>
          (case out_opt of
             None \<Rightarrow>
               ([for_host_call (shape inp) dt device_visible],
                Invoke func X inp dt (for_host (shape inp) dt device_visible))
           | Some outp \<Rightarrow> ([], Invoke func X inp dt outp)))"

text \<open>
  The unsupported-dtype condition: an \<open>invalid_argument\<close> whose message starts with
  \<open>Unsupported dtype(\<close>.
\<close>

fun unsupported_dtype :: "error \<Rightarrow> bool" where
  "unsupported_dtype (invalid_argument msg) = (take 18 msg = ''Unsupported dtype('')"

section \<open>Helper lemmas\<close>

lemma float_of_bfloat16_of_float:
  "float_of_bfloat16 (bfloat16_of_float x) = push_bit 16 (drop_bit 16 x)"
  by (rule bit_word_eqI)
     (auto simp: bfloat16_of_float_def float_of_bfloat16_def bit_ucast_iff bit_drop_bit_eq
        bit_push_bit_iff)

lemma escalation_by_width:
  "is_integer p \<Longrightarrow>
     (case p of uint8 \<Rightarrow> Inr int16 | int8 \<Rightarrow> Inr int16 | uint16 \<Rightarrow> Inr int32
        | int16 \<Rightarrow> Inr int32 | uint32 \<Rightarrow> Inr int64 | int32 \<Rightarrow> Inr int64
        | _ \<Rightarrow> (Inr int64 :: error + DType)) =
     Inr (if bit_count p = 8 then int16 else if bit_count p = 16 then int32 else int64)
     \<and> (bit_count p = 8 \<or> bit_count p = 16 \<or> bit_count p = 32 \<or> bit_count p = 64)"
  by (cases p) simp_all

lemma Invoke_keeps_dtype_shape:
  "Invoke func X inp dt outp = Inr r \<Longrightarrow> dtype r = dtype outp \<and> shape r = shape outp"
  by (cases func)
     (auto simp: ConvertFunctor_Invoke_def ConvertNearest_Invoke_def Let_def
        split: option.splits if_splits)

lemma Invoke_unsupported:
  "input_case func (dtype inp) = None \<Longrightarrow>
     \<exists>e. Invoke func X inp dt outp = Inl e \<and> unsupported_dtype e"
  by (cases func) (simp_all add: ConvertFunctor_Invoke_def ConvertNearest_Invoke_def)

lemma nearest_store_in_range:
  "is_integer dt \<and> 8 \<le> bit_count dt \<and> bit_count dt \<le> 32 \<Longrightarrow>
     \<exists>t. ConvertNearest_store_case dt = Some t \<and> is_integral t \<and> width t = bit_count dt
       \<and> is_signed_integral t = (\<not> is_unsigned dt)"
  by (cases dt) simp_all

lemma nearest_store_out_of_range:
  "\<not> (is_integer dt \<and> 8 \<le> bit_count dt \<and> bit_count dt \<le> 32) \<Longrightarrow>
     ConvertNearest_store_case dt = None"
  by (cases dt) simp_all

section \<open>The bfloat16 encoding\<close>

text \<open>
  C9. Constructing \<open>bfloat16_t\<close> from a float stores exactly the upper 16 bits of the
  float's bit pattern: bit \<open>n\<close> of the stored value is bit \<open>n + 16\<close> of the float, whatever
  the low 16 bits are (truncation, no rounding). Converting back puts the stored 16 bits
  into the upper half of a 32-bit pattern whose lower half is zero. Hence narrowing the
  widened float recovers every stored value, and a float whose low 16 bits are zero
  survives the round trip through \<open>bfloat16_t\<close> unchanged. Floats are compared by their
  bit patterns.
\<close>

theorem bfloat16_truncates_and_zero_extends:
  "bit (bf16_value (bfloat16_of_float f)) n = (n < 16 \<and> bit f (n + 16))
   \<and> bit (float_of_bfloat16 b) n = (16 \<le> n \<and> n < 32 \<and> bit (bf16_value b) (n - 16))
   \<and> bfloat16_of_float (float_of_bfloat16 b) = b
   \<and> (take_bit 16 x = 0 \<longrightarrow> float_of_bfloat16 (bfloat16_of_float x) = x)"
proof -
  have narrow: "bit (bf16_value (bfloat16_of_float f)) n = (n < 16 \<and> bit f (n + 16))"
    by (auto simp: bfloat16_of_float_def bit_ucast_iff bit_drop_bit_eq add.commute
          dest: bit_imp_le_length)
  have widen:
    "bit (float_of_bfloat16 b) n = (16 \<le> n \<and> n < 32 \<and> bit (bf16_value b) (n - 16))"
    by (auto simp: float_of_bfloat16_def bit_ucast_iff bit_push_bit_iff
          dest: bit_imp_le_length)
  have inverse: "bfloat16_of_float (float_of_bfloat16 b) = b"
    by (cases b)
       (auto simp: bfloat16_of_float_def float_of_bfloat16_def bit_ucast_iff bit_drop_bit_eq
          bit_push_bit_iff intro!: bit_word_eqI)
  have forth: "float_of_bfloat16 (bfloat16_of_float x) = x" if z: "take_bit 16 x = 0"
  proof -
    have "push_bit 16 (drop_bit 16 x) + take_bit 16 x = x"
      by (simp add: bits_ident)
    with z show ?thesis
      by (simp add: float_of_bfloat16_of_float)
  qed
  from narrow widen inverse forth show ?thesis
    by blast
qed

text \<open>
  At \<open>1.0f\<close> (pattern \<open>0x3F800000\<close>, low half zero) the round trip is exact; the stored
  value is \<open>0x3F80\<close>.
\<close>

theorem bfloat16_truncates_and_zero_extends_witness:
  "take_bit 16 (0x3F800000 :: 32 word) = 0
   \<and> float_of_bfloat16 (bfloat16_of_float 0x3F800000) = 0x3F800000
   \<and> bf16_value (bfloat16_of_float 0x3F800000) = 0x3F80"
proof -
  have low: "take_bit 16 (0x3F800000 :: 32 word) = 0"
    by simp
  have stored: "bf16_value (bfloat16_of_float 0x3F800000) = 0x3F80"
    by (simp add: bfloat16_of_float_def)
  from bfloat16_truncates_and_zero_extends [of "0x3F800000" 0 "Bfloat16 0x3F80" "0x3F800000"] low
  have "float_of_bfloat16 (bfloat16_of_float 0x3F800000) = 0x3F800000"
    by blast
  with low stored show ?thesis
    by blast
qed

section \<open>Promotion\<close>

text \<open>
  C2. The rank of a dtype is its classification weight plus its bit count, with weight
  1000 for a boolean, 2000 for an integer, 4000 for a float and 8000 for a complex dtype.
  Of two present dtypes the one with the strictly higher rank is the winning dtype
  (\<open>promoted_dtype\<close>), and the left-hand one wins when the ranks are equal. The winning
  dtype is what \<open>PromoteArithmeticTypes\<close> returns, unless it is an integer type and the
  operands disagree on unsignedness (the escalation of C3).
\<close>

theorem rank_is_weight_plus_bits_and_higher_rank_wins:
  "(is_boolean d \<longrightarrow> DTypePromotionRank d = 1000 + int (bit_count d))
   \<and> (is_integer d \<longrightarrow> DTypePromotionRank d = 2000 + int (bit_count d))
   \<and> (is_float d \<longrightarrow> DTypePromotionRank d = 4000 + int (bit_count d))
   \<and> (is_complex d \<longrightarrow> DTypePromotionRank d = 8000 + int (bit_count d))
   \<and> (DTypePromotionRank a < DTypePromotionRank b \<longrightarrow> promoted_dtype a b = b)
   \<and> (DTypePromotionRank b < DTypePromotionRank a \<longrightarrow> promoted_dtype a b = a)
   \<and> (DTypePromotionRank a = DTypePromotionRank b \<longrightarrow> promoted_dtype a b = a)
   \<and> (\<not> (is_integer (promoted_dtype a b) \<and> is_unsigned a \<noteq> is_unsigned b) \<longrightarrow>
        PromoteArithmeticTypes (Some a) (Some b) = Inr (promoted_dtype a b))"
proof -
  have rank:
    "(is_boolean d \<longrightarrow> DTypePromotionRank d = 1000 + int (bit_count d))
     \<and> (is_integer d \<longrightarrow> DTypePromotionRank d = 2000 + int (bit_count d))
     \<and> (is_float d \<longrightarrow> DTypePromotionRank d = 4000 + int (bit_count d))
     \<and> (is_complex d \<longrightarrow> DTypePromotionRank d = 8000 + int (bit_count d))"
    by (cases d) (simp_all add: DTypePromotionRank_def)
  have win:
    "(DTypePromotionRank a < DTypePromotionRank b \<longrightarrow> promoted_dtype a b = b)
     \<and> (DTypePromotionRank b < DTypePromotionRank a \<longrightarrow> promoted_dtype a b = a)
     \<and> (DTypePromotionRank a = DTypePromotionRank b \<longrightarrow> promoted_dtype a b = a)"
    by (simp add: promoted_dtype_def Let_def)
  have res:
    "\<not> (is_integer (promoted_dtype a b) \<and> is_unsigned a \<noteq> is_unsigned b) \<longrightarrow>
       PromoteArithmeticTypes (Some a) (Some b) = Inr (promoted_dtype a b)"
    by (auto simp: Let_def)
  from rank win res show ?thesis
    by blast
qed

text \<open>
  One dtype of each class, and the three orders of two ranks: \<open>int32\<close> against \<open>float16\<close>
  (the float wins on either side, although it is narrower) and \<open>float16\<close> against
  \<open>bfloat16\<close> (equal ranks, the left wins).
\<close>

theorem rank_is_weight_plus_bits_and_higher_rank_wins_witness:
  "is_boolean bool8 \<and> DTypePromotionRank bool8 = 1008
   \<and> is_integer int32 \<and> DTypePromotionRank int32 = 2032
   \<and> is_float float16 \<and> DTypePromotionRank float16 = 4016
   \<and> is_complex complex64 \<and> DTypePromotionRank complex64 = 8064
   \<and> DTypePromotionRank int32 < DTypePromotionRank float16
   \<and> PromoteArithmeticTypes (Some int32) (Some float16) = Inr float16
   \<and> PromoteArithmeticTypes (Some float16) (Some int32) = Inr float16
   \<and> DTypePromotionRank float16 = DTypePromotionRank bfloat16
   \<and> PromoteArithmeticTypes (Some float16) (Some bfloat16) = Inr float16"
proof -
  have ranks:
    "DTypePromotionRank int32 < DTypePromotionRank float16"
    "DTypePromotionRank float16 = DTypePromotionRank bfloat16"
    by (simp_all add: DTypePromotionRank_def)
  have classes:
    "is_boolean bool8" "is_integer int32" "is_float float16" "is_complex complex64"
    "\<not> is_integer float16"
    by simp_all
  note t = rank_is_weight_plus_bits_and_higher_rank_wins
  from t [of bool8 int32 float16] ranks classes
  have 1: "DTypePromotionRank bool8 = 1008"
    and 2: "PromoteArithmeticTypes (Some int32) (Some float16) = Inr float16"
    by simp_all
  from t [of int32 float16 int32] ranks classes
  have 3: "DTypePromotionRank int32 = 2032"
    and 4: "PromoteArithmeticTypes (Some float16) (Some int32) = Inr float16"
    by simp_all
  from t [of float16 float16 bfloat16] ranks classes
  have 5: "DTypePromotionRank float16 = 4016"
    and 6: "PromoteArithmeticTypes (Some float16) (Some bfloat16) = Inr float16"
    by simp_all
  from t [of complex64 float16 bfloat16] classes
  have 7: "DTypePromotionRank complex64 = 8064"
    by simp
  from 1 2 3 4 5 6 7 ranks classes show ?thesis
    by blast
qed

text \<open>
  C3. When the winning dtype is an integer type and exactly one of the two operands is
  unsigned, the result is the signed integer type of the next width above the winning
  dtype: \<open>int16\<close> for an 8-bit winner, \<open>int32\<close> for a 16-bit one, \<open>int64\<close> for a 32-bit
  one, and \<open>int64\<close> again for a 64-bit one. In particular \<open>promote(i8, u8) = i16\<close>,
  \<open>promote(i32, u32) = i64\<close> and \<open>promote(u64, i64) = i64\<close>.
\<close>

theorem signedness_mismatch_escalates_to_next_signed:
  "(is_integer (promoted_dtype a b) \<and> is_unsigned a \<noteq> is_unsigned b \<longrightarrow>
      PromoteArithmeticTypes (Some a) (Some b) =
        Inr (if bit_count (promoted_dtype a b) = 8 then int16
             else if bit_count (promoted_dtype a b) = 16 then int32
             else int64)
      \<and> (bit_count (promoted_dtype a b) = 8 \<or> bit_count (promoted_dtype a b) = 16
         \<or> bit_count (promoted_dtype a b) = 32 \<or> bit_count (promoted_dtype a b) = 64))
   \<and> PromoteArithmeticTypes (Some int8) (Some uint8) = Inr int16
   \<and> PromoteArithmeticTypes (Some int32) (Some uint32) = Inr int64
   \<and> PromoteArithmeticTypes (Some uint64) (Some int64) = Inr int64"
proof -
  have gen:
    "is_integer (promoted_dtype a b) \<and> is_unsigned a \<noteq> is_unsigned b \<longrightarrow>
       PromoteArithmeticTypes (Some a) (Some b) =
         Inr (if bit_count (promoted_dtype a b) = 8 then int16
              else if bit_count (promoted_dtype a b) = 16 then int32
              else int64)
       \<and> (bit_count (promoted_dtype a b) = 8 \<or> bit_count (promoted_dtype a b) = 16
          \<or> bit_count (promoted_dtype a b) = 32 \<or> bit_count (promoted_dtype a b) = 64)"
    using escalation_by_width [of "promoted_dtype a b"] by (auto simp: Let_def)
  have particular:
    "PromoteArithmeticTypes (Some int8) (Some uint8) = Inr int16
     \<and> PromoteArithmeticTypes (Some int32) (Some uint32) = Inr int64
     \<and> PromoteArithmeticTypes (Some uint64) (Some int64) = Inr int64"
    by (simp add: promoted_dtype_def DTypePromotionRank_def)
  from gen particular show ?thesis
    by blast
qed

text \<open>
  A mixed pair of different widths: \<open>uint8\<close> against \<open>int16\<close>. The winner \<open>int16\<close> is
  16 bits wide, so the result is \<open>int32\<close>.
\<close>

theorem signedness_mismatch_escalates_to_next_signed_witness:
  "is_integer (promoted_dtype uint8 int16) \<and> is_unsigned uint8 \<noteq> is_unsigned int16
   \<and> bit_count (promoted_dtype uint8 int16) = 16
   \<and> PromoteArithmeticTypes (Some uint8) (Some int16) = Inr int32"
proof -
  have w: "promoted_dtype uint8 int16 = int16"
    by (simp add: promoted_dtype_def DTypePromotionRank_def)
  then have h: "is_integer (promoted_dtype uint8 int16) \<and> is_unsigned uint8 \<noteq> is_unsigned int16"
    by simp
  from signedness_mismatch_escalates_to_next_signed [of uint8 int16] h
  have "PromoteArithmeticTypes (Some uint8) (Some int16) =
          Inr (if bit_count (promoted_dtype uint8 int16) = 8 then int16
               else if bit_count (promoted_dtype uint8 int16) = 16 then int32
               else int64)"
    by blast
  with w h show ?thesis
    by simp
qed

text \<open>
  C5. With both operand dtypes absent, promotion fails with \<open>invalid_argument\<close>; with
  exactly one absent, it returns the dtype of the present operand unchanged, whichever
  side it is on and whatever dtype it is.
\<close>

theorem promote_with_absent_operands:
  "PromoteArithmeticTypes None None =
     Inl (invalid_argument
       ''Elementwise operators require at least one argument to be a device_array'')
   \<and> PromoteArithmeticTypes None (Some d) = Inr d
   \<and> PromoteArithmeticTypes (Some d) None = Inr d"
  by simp

text \<open>
  C10, as stated, fails: \<open>float16\<close> and \<open>bfloat16\<close> are different dtypes of equal rank
  (both floats of 16 bits), the winner is no integer type, and so the left operand's
  dtype is returned in either order.
\<close>

theorem promote_is_not_commutative_counterexample:
  "PromoteArithmeticTypes (Some float16) (Some bfloat16) = Inr float16
   \<and> PromoteArithmeticTypes (Some bfloat16) (Some float16) = Inr bfloat16
   \<and> PromoteArithmeticTypes (Some float16) (Some bfloat16)
       \<noteq> PromoteArithmeticTypes (Some bfloat16) (Some float16)"
  by (simp add: promoted_dtype_def DTypePromotionRank_def)

text \<open>
  C10, amended. \<open>promote(a, b) = promote(b, a)\<close> holds exactly when \<open>a\<close> and \<open>b\<close> are not
  two different float dtypes of the same bit count; for such a pair the left operand's
  dtype is returned in either order, so there the tie-break is observable. Equal ranks
  occur for identical dtypes, for a signed/unsigned pair of integers of one width (where
  the escalation gives the same signed result in both orders) and for two floats of one
  width. With an absent operand the result does not depend on the side either.
\<close>

theorem promote_commutes_except_for_float_ties:
  "(PromoteArithmeticTypes (Some a) (Some b) = PromoteArithmeticTypes (Some b) (Some a))
     = (\<not> (a \<noteq> b \<and> is_float a \<and> is_float b \<and> bit_count a = bit_count b))
   \<and> (a \<noteq> b \<and> is_float a \<and> is_float b \<and> bit_count a = bit_count b \<longrightarrow>
        PromoteArithmeticTypes (Some a) (Some b) = Inr a
        \<and> PromoteArithmeticTypes (Some b) (Some a) = Inr b)
   \<and> (DTypePromotionRank a = DTypePromotionRank b \<and> a \<noteq> b \<longrightarrow>
        (is_integer a \<and> is_integer b \<and> is_unsigned a \<noteq> is_unsigned b
           \<and> bit_count a = bit_count b)
        \<or> (is_float a \<and> is_float b \<and> bit_count a = bit_count b))
   \<and> PromoteArithmeticTypes None y = PromoteArithmeticTypes y None"
proof -
  have 1:
    "(PromoteArithmeticTypes (Some a) (Some b) = PromoteArithmeticTypes (Some b) (Some a))
       = (\<not> (a \<noteq> b \<and> is_float a \<and> is_float b \<and> bit_count a = bit_count b))"
    by (cases a; cases b; simp add: promoted_dtype_def DTypePromotionRank_def)
  have 2:
    "a \<noteq> b \<and> is_float a \<and> is_float b \<and> bit_count a = bit_count b \<longrightarrow>
       PromoteArithmeticTypes (Some a) (Some b) = Inr a
       \<and> PromoteArithmeticTypes (Some b) (Some a) = Inr b"
    by (cases a; cases b; simp add: promoted_dtype_def DTypePromotionRank_def)
  have 3:
    "DTypePromotionRank a = DTypePromotionRank b \<and> a \<noteq> b \<longrightarrow>
       (is_integer a \<and> is_integer b \<and> is_unsigned a \<noteq> is_unsigned b
          \<and> bit_count a = bit_count b)
       \<or> (is_float a \<and> is_float b \<and> bit_count a = bit_count b)"
    by (cases a; cases b; simp add: DTypePromotionRank_def)
  have 4: "PromoteArithmeticTypes None y = PromoteArithmeticTypes y None"
    by (cases y) simp_all
  from 1 2 3 4 show ?thesis
    by blast
qed

text \<open>
  The signed/unsigned tie \<open>int8\<close>, \<open>uint8\<close> gives \<open>int16\<close> in both orders; the float tie
  \<open>float8_e4m3fn\<close>, \<open>float8_e4m3fnuz\<close> gives the left operand's dtype.
\<close>

theorem promote_commutes_except_for_float_ties_witness:
  "DTypePromotionRank int8 = DTypePromotionRank uint8 \<and> int8 \<noteq> uint8
   \<and> is_integer int8 \<and> is_integer uint8 \<and> is_unsigned int8 \<noteq> is_unsigned uint8
   \<and> bit_count int8 = bit_count uint8
   \<and> PromoteArithmeticTypes (Some int8) (Some uint8)
       = PromoteArithmeticTypes (Some uint8) (Some int8)
   \<and> float8_e4m3fn \<noteq> float8_e4m3fnuz \<and> is_float float8_e4m3fn \<and> is_float float8_e4m3fnuz
   \<and> bit_count float8_e4m3fn = bit_count float8_e4m3fnuz
   \<and> PromoteArithmeticTypes (Some float8_e4m3fn) (Some float8_e4m3fnuz) = Inr float8_e4m3fn
   \<and> PromoteArithmeticTypes (Some float8_e4m3fnuz) (Some float8_e4m3fn) = Inr float8_e4m3fnuz"
proof -
  note t = promote_commutes_except_for_float_ties
  have ints: "DTypePromotionRank int8 = DTypePromotionRank uint8 \<and> int8 \<noteq> uint8"
    by (simp add: DTypePromotionRank_def)
  have "\<not> (int8 \<noteq> uint8 \<and> is_float int8 \<and> is_float uint8 \<and> bit_count int8 = bit_count uint8)"
    by simp
  with t [of int8 uint8 None]
  have 1: "PromoteArithmeticTypes (Some int8) (Some uint8)
             = PromoteArithmeticTypes (Some uint8) (Some int8)"
    by blast
  have "\<not> is_float int8"
    by simp
  with t [of int8 uint8 None] ints
  have 3: "is_integer int8 \<and> is_integer uint8 \<and> is_unsigned int8 \<noteq> is_unsigned uint8
           \<and> bit_count int8 = bit_count uint8"
    by blast
  have floats:
    "float8_e4m3fn \<noteq> float8_e4m3fnuz \<and> is_float float8_e4m3fn \<and> is_float float8_e4m3fnuz
     \<and> bit_count float8_e4m3fn = bit_count float8_e4m3fnuz"
    by simp
  with t [of float8_e4m3fn float8_e4m3fnuz None]
  have 2:
    "PromoteArithmeticTypes (Some float8_e4m3fn) (Some float8_e4m3fnuz) = Inr float8_e4m3fn
     \<and> PromoteArithmeticTypes (Some float8_e4m3fnuz) (Some float8_e4m3fn) = Inr float8_e4m3fnuz"
    by blast
  from ints 1 3 floats 2 show ?thesis
    by blast
qed

section \<open>The conversion kernels\<close>

text \<open>
  C6. With neither an explicit dtype nor an output buffer, the dtype handed to the kernel
  is the input's dtype: one buffer of the input's shape and dtype is allocated, and a
  successful call returns an array of that dtype and shape. With both a dtype and an
  output buffer whose dtype differs, the call fails with \<open>invalid_argument\<close> and
  allocates nothing. With no output buffer and an explicit dtype, one buffer of the
  input's shape and that dtype is allocated, and it is what a successful call returns.
  With an output buffer and no conflicting dtype nothing is allocated.
\<close>

theorem convert_decides_dtype_and_allocates:
  "fst (GenericElementwiseConvert func X inp None None dv)
      = [for_host_call (shape inp) (dtype inp) dv]
   \<and> snd (GenericElementwiseConvert func X inp None None dv)
      = Invoke func X inp (dtype inp) (for_host (shape inp) (dtype inp) dv)
   \<and> (snd (GenericElementwiseConvert func X inp None None dv) = Inr r
        \<longrightarrow> dtype r = dtype inp \<and> shape r = shape inp)
   \<and> (dtype outp \<noteq> dt \<longrightarrow>
        GenericElementwiseConvert func X inp (Some dt) (Some outp) dv
          = ([], Inl (invalid_argument ''if both dtype and out are specified, they must match'')))
   \<and> fst (GenericElementwiseConvert func X inp (Some dt) None dv)
      = [for_host_call (shape inp) dt dv]
   \<and> snd (GenericElementwiseConvert func X inp (Some dt) None dv)
      = Invoke func X inp dt (for_host (shape inp) dt dv)
   \<and> (snd (GenericElementwiseConvert func X inp (Some dt) None dv) = Inr r'
        \<longrightarrow> dtype r' = dt \<and> shape r' = shape inp)
   \<and> GenericElementwiseConvert func X inp None (Some outp) dv
      = ([], Invoke func X inp (dtype outp) outp)
   \<and> GenericElementwiseConvert func X inp (Some (dtype outp)) (Some outp) dv
      = ([], Invoke func X inp (dtype outp) outp)"
proof -
  have g:
    "snd (GenericElementwiseConvert func X inp None None dv)
       = Invoke func X inp (dtype inp) (for_host (shape inp) (dtype inp) dv)"
    "snd (GenericElementwiseConvert func X inp (Some dt) None dv)
       = Invoke func X inp dt (for_host (shape inp) dt dv)"
    "fst (GenericElementwiseConvert func X inp None None dv)
       = [for_host_call (shape inp) (dtype inp) dv]"
    "fst (GenericElementwiseConvert func X inp (Some dt) None dv)
       = [for_host_call (shape inp) dt dv]"
    "dtype outp \<noteq> dt \<longrightarrow>
       GenericElementwiseConvert func X inp (Some dt) (Some outp) dv
         = ([], Inl (invalid_argument ''if both dtype and out are specified, they must match''))"
    "GenericElementwiseConvert func X inp None (Some outp) dv
       = ([], Invoke func X inp (dtype outp) outp)"
    "GenericElementwiseConvert func X inp (Some (dtype outp)) (Some outp) dv
       = ([], Invoke func X inp (dtype outp) outp)"
    by (simp_all add: GenericElementwiseConvert_def)
  have f: "dtype (for_host (shape inp) d dv) = d \<and> shape (for_host (shape inp) d dv) = shape inp"
    for d
    by (simp add: for_host_def)
  have r1:
    "snd (GenericElementwiseConvert func X inp None None dv) = Inr r
       \<longrightarrow> dtype r = dtype inp \<and> shape r = shape inp"
    using Invoke_keeps_dtype_shape
            [of func X inp "dtype inp" "for_host (shape inp) (dtype inp) dv" r] f g(1)
    by simp
  have r2:
    "snd (GenericElementwiseConvert func X inp (Some dt) None dv) = Inr r'
       \<longrightarrow> dtype r' = dt \<and> shape r' = shape inp"
    using Invoke_keeps_dtype_shape [of func X inp dt "for_host (shape inp) dt dv" r'] f g(2)
    by simp
  from g r1 r2 show ?thesis
    by blast
qed

text \<open>
  \<open>convert\<close> of the \<open>int8\<close> array \<open>[-1, 1]\<close> (patterns 255 and 1): with no dtype and no
  buffer the result is an \<open>int8\<close> array of the same shape; with dtype \<open>int16\<close> it is an
  \<open>int16\<close> array holding \<open>[-1, 1]\<close> (patterns 65535 and 1); with dtype \<open>int16\<close> and an
  \<open>int32\<close> buffer the call fails.
\<close>

theorem convert_decides_dtype_and_allocates_witness:
  "\<forall>X. snd (GenericElementwiseConvert ConvertFunctor X
              \<lparr>dtype = int8, shape = [2], data = [255, 1]\<rparr> None None False)
           = Inr \<lparr>dtype = int8, shape = [2], data = [255, 1]\<rparr>
       \<and> snd (GenericElementwiseConvert ConvertFunctor X
                \<lparr>dtype = int8, shape = [2], data = [255, 1]\<rparr> (Some int16) None False)
           = Inr \<lparr>dtype = int16, shape = [2], data = [65535, 1]\<rparr>
       \<and> fst (GenericElementwiseConvert ConvertFunctor X
                \<lparr>dtype = int8, shape = [2], data = [255, 1]\<rparr> (Some int16) None False)
           = [for_host_call [2] int16 False]
       \<and> dtype (for_host [2] int32 False) \<noteq> int16
       \<and> GenericElementwiseConvert ConvertFunctor X
            \<lparr>dtype = int8, shape = [2], data = [255, 1]\<rparr>
            (Some int16) (Some (for_host [2] int32 False)) False
           = ([], Inl (invalid_argument
                ''if both dtype and out are specified, they must match''))"
proof (intro allI)
  fix X
  let ?inp = "\<lparr>dtype = int8, shape = [2], data = [255, 1]\<rparr>"
  let ?r = "\<lparr>dtype = int8, shape = [2], data = [255, 1]\<rparr>"
  let ?r' = "\<lparr>dtype = int16, shape = [2], data = [65535, 1]\<rparr>"
  note t = convert_decides_dtype_and_allocates
             [where func = ConvertFunctor and X = X and inp = ?inp and dv = False
                and dt = int16 and outp = "for_host [2] int32 False" and r = ?r and r' = ?r']
  have same: "Invoke ConvertFunctor X ?inp int8 (for_host [2] int8 False) = Inr ?r"
    by (simp add: ConvertFunctor_Invoke_def for_host_def xt_cast_def read_int_def write_int_def)
  have wider: "Invoke ConvertFunctor X ?inp int16 (for_host [2] int16 False) = Inr ?r'"
    by (simp add: ConvertFunctor_Invoke_def for_host_def xt_cast_def read_int_def write_int_def)
  have differ: "dtype (for_host [2] int32 False) \<noteq> int16"
    by (simp add: for_host_def)
  from t same wider differ
  show "snd (GenericElementwiseConvert ConvertFunctor X ?inp None None False) = Inr ?r
       \<and> snd (GenericElementwiseConvert ConvertFunctor X ?inp (Some int16) None False) = Inr ?r'
       \<and> fst (GenericElementwiseConvert ConvertFunctor X ?inp (Some int16) None False)
           = [for_host_call [2] int16 False]
       \<and> dtype (for_host [2] int32 False) \<noteq> int16
       \<and> GenericElementwiseConvert ConvertFunctor X ?inp
            (Some int16) (Some (for_host [2] int32 False)) False
           = ([], Inl (invalid_argument
                ''if both dtype and out are specified, they must match''))"
    by simp
qed

text \<open>
  C7. For \<open>round\<close>, \<open>ceil\<close>, \<open>floor\<close> and \<open>trunc\<close> on an input of a supported dtype, with the
  requested dtype \<open>dt\<close> and a target buffer \<open>buf\<close> (the buffer passed in, of dtype \<open>dt\<close>, or
  the one allocated): when \<open>dt\<close> is the input's dtype, the rounded elements are stored as
  they are, in the input's element type; when \<open>dt\<close> differs and is an integer dtype of 8
  to 32 bits, the elements are first rounded in the input's element type and then cast
  to the integral element type of \<open>dt\<close>'s width and signedness; for any other differing
  \<open>dt\<close> (64-bit integers included) the call fails with \<open>invalid_argument\<close>.
\<close>

theorem nearest_integer_output_dtype_contract:
  "(Invoke func = ConvertNearest_Invoke f
      \<and> ConvertNearest_input_case (dtype inp) = Some EltTy
      \<and> (out_opt = None \<and> buf = for_host (shape inp) dt dv
           \<or> out_opt = Some buf \<and> dtype buf = dt)
    \<longrightarrow>
      (dt = dtype inp \<longrightarrow>
         snd (GenericElementwiseConvert func X inp (Some dt) out_opt dv)
           = Inr (buf\<lparr>data := map (nearest X f EltTy) (data inp)\<rparr>))
      \<and> (dt \<noteq> dtype inp \<and> is_integer dt \<and> 8 \<le> bit_count dt \<and> bit_count dt \<le> 32 \<longrightarrow>
           (\<exists>t. ConvertNearest_store_case dt = Some t \<and> is_integral t
                \<and> width t = bit_count dt \<and> is_signed_integral t = (\<not> is_unsigned dt)
                \<and> snd (GenericElementwiseConvert func X inp (Some dt) out_opt dv)
                    = Inr (buf\<lparr>data :=
                             map (xt_cast X EltTy t) (map (nearest X f EltTy) (data inp))\<rparr>)))
      \<and> (dt \<noteq> dtype inp \<and> \<not> (is_integer dt \<and> 8 \<le> bit_count dt \<and> bit_count dt \<le> 32) \<longrightarrow>
           snd (GenericElementwiseConvert func X inp (Some dt) out_opt dv)
             = Inl (invalid_argument
                 ''Invalid output dtype for converting nearest integer op'')))
   \<and> Invoke ConvertRoundFunctor = ConvertNearest_Invoke xt_round
   \<and> Invoke ConvertCeilFunctor = ConvertNearest_Invoke xt_ceil
   \<and> Invoke ConvertFloorFunctor = ConvertNearest_Invoke xt_floor
   \<and> Invoke ConvertTruncFunctor = ConvertNearest_Invoke xt_trunc"
proof -
  have functors:
    "Invoke ConvertRoundFunctor = ConvertNearest_Invoke xt_round"
    "Invoke ConvertCeilFunctor = ConvertNearest_Invoke xt_ceil"
    "Invoke ConvertFloorFunctor = ConvertNearest_Invoke xt_floor"
    "Invoke ConvertTruncFunctor = ConvertNearest_Invoke xt_trunc"
    by simp_all
  have call:
    "snd (GenericElementwiseConvert func X inp (Some dt) out_opt dv)
       = ConvertNearest_Invoke f X inp dt buf"
    if "Invoke func = ConvertNearest_Invoke f"
      and "out_opt = None \<and> buf = for_host (shape inp) dt dv \<or> out_opt = Some buf \<and> dtype buf = dt"
    using that by (auto simp: GenericElementwiseConvert_def)
  have same:
    "ConvertNearest_Invoke f X inp dt buf = Inr (buf\<lparr>data := map (nearest X f EltTy) (data inp)\<rparr>)"
    if "ConvertNearest_input_case (dtype inp) = Some EltTy" and "dt = dtype inp"
    using that by (simp add: ConvertNearest_Invoke_def)
  have cast:
    "\<exists>t. ConvertNearest_store_case dt = Some t \<and> is_integral t
        \<and> width t = bit_count dt \<and> is_signed_integral t = (\<not> is_unsigned dt)
        \<and> ConvertNearest_Invoke f X inp dt buf
            = Inr (buf\<lparr>data := map (xt_cast X EltTy t) (map (nearest X f EltTy) (data inp))\<rparr>)"
    if "ConvertNearest_input_case (dtype inp) = Some EltTy" and "dt \<noteq> dtype inp"
      and "is_integer dt \<and> 8 \<le> bit_count dt \<and> bit_count dt \<le> 32"
    using that nearest_store_in_range [of dt] by (auto simp: ConvertNearest_Invoke_def)
  have reject:
    "ConvertNearest_Invoke f X inp dt buf
       = Inl (invalid_argument ''Invalid output dtype for converting nearest integer op'')"
    if "ConvertNearest_input_case (dtype inp) = Some EltTy" and "dt \<noteq> dtype inp"
      and "\<not> (is_integer dt \<and> 8 \<le> bit_count dt \<and> bit_count dt \<le> 32)"
    using that nearest_store_out_of_range [of dt] by (simp add: ConvertNearest_Invoke_def)
  from functors call same cast reject show ?thesis
    by (simp only: HOL.simp_thms) metis
qed

text \<open>
  \<open>round\<close> of the \<open>float32\<close> array \<open>[1.5]\<close> (pattern \<open>0x3FC00000\<close>): to \<open>float32\<close> the
  rounded element is stored; to \<open>int32\<close> it is rounded as a \<open>float\<close> and then cast to
  \<open>int32_t\<close>; to \<open>int64\<close> the call fails.
\<close>

theorem nearest_integer_output_dtype_contract_witness:
  "\<forall>X.
     Invoke ConvertRoundFunctor = ConvertNearest_Invoke xt_round
     \<and> ConvertNearest_input_case float32 = Some cpp_float
     \<and> snd (GenericElementwiseConvert ConvertRoundFunctor X
              \<lparr>dtype = float32, shape = [1], data = [1069547520]\<rparr> (Some float32) None False)
         = Inr \<lparr>dtype = float32, shape = [1], data = [nearest X xt_round cpp_float 1069547520]\<rparr>
     \<and> int32 \<noteq> float32 \<and> is_integer int32 \<and> 8 \<le> bit_count int32 \<and> bit_count int32 \<le> 32
     \<and> snd (GenericElementwiseConvert ConvertRoundFunctor X
              \<lparr>dtype = float32, shape = [1], data = [1069547520]\<rparr> (Some int32) None False)
         = Inr \<lparr>dtype = int32, shape = [1],
                data = [xt_cast X cpp_float cpp_int32_t (nearest X xt_round cpp_float 1069547520)]\<rparr>
     \<and> int64 \<noteq> float32 \<and> \<not> (is_integer int64 \<and> 8 \<le> bit_count int64 \<and> bit_count int64 \<le> 32)
     \<and> snd (GenericElementwiseConvert ConvertRoundFunctor X
              \<lparr>dtype = float32, shape = [1], data = [1069547520]\<rparr> (Some int64) None False)
         = Inl (invalid_argument ''Invalid output dtype for converting nearest integer op'')"
proof (intro allI)
  fix X
  let ?inp = "\<lparr>dtype = float32, shape = [1], data = [1069547520]\<rparr>"
  have rounding: "Invoke ConvertRoundFunctor = ConvertNearest_Invoke xt_round"
    by simp
  have supported: "ConvertNearest_input_case (dtype ?inp) = Some cpp_float"
    by simp
  have dts:
    "int32 \<noteq> dtype ?inp \<and> is_integer int32 \<and> 8 \<le> bit_count int32 \<and> bit_count int32 \<le> 32"
    "int64 \<noteq> dtype ?inp
       \<and> \<not> (is_integer int64 \<and> 8 \<le> bit_count int64 \<and> bit_count int64 \<le> 32)"
    by simp_all
  note t = nearest_integer_output_dtype_contract
             [where func = ConvertRoundFunctor and f = xt_round and inp = ?inp
                and EltTy = cpp_float and out_opt = None and X = X and dv = False]
  from t [where dt = float32 and buf = "for_host (shape ?inp) float32 False"] rounding supported
  have 1: "snd (GenericElementwiseConvert ConvertRoundFunctor X ?inp (Some float32) None False)
             = Inr \<lparr>dtype = float32, shape = [1], data = [nearest X xt_round cpp_float 1069547520]\<rparr>"
    by (simp add: for_host_def)
  from t [where dt = int32 and buf = "for_host (shape ?inp) int32 False"] rounding supported dts(1)
  have 2: "snd (GenericElementwiseConvert ConvertRoundFunctor X ?inp (Some int32) None False)
             = Inr \<lparr>dtype = int32, shape = [1],
                    data = [xt_cast X cpp_float cpp_int32_t (nearest X xt_round cpp_float 1069547520)]\<rparr>"
    by (simp add: for_host_def)
  from t [where dt = int64 and buf = "for_host (shape ?inp) int64 False"] rounding supported dts(2)
  have 3: "snd (GenericElementwiseConvert ConvertRoundFunctor X ?inp (Some int64) None False)
             = Inl (invalid_argument ''Invalid output dtype for converting nearest integer op'')"
    by simp
  from rounding supported 1 2 3 dts
  show "Invoke ConvertRoundFunctor = ConvertNearest_Invoke xt_round
     \<and> ConvertNearest_input_case float32 = Some cpp_float
     \<and> snd (GenericElementwiseConvert ConvertRoundFunctor X ?inp (Some float32) None False)
         = Inr \<lparr>dtype = float32, shape = [1], data = [nearest X xt_round cpp_float 1069547520]\<rparr>
     \<and> int32 \<noteq> float32 \<and> is_integer int32 \<and> 8 \<le> bit_count int32 \<and> bit_count int32 \<le> 32
     \<and> snd (GenericElementwiseConvert ConvertRoundFunctor X ?inp (Some int32) None False)
         = Inr \<lparr>dtype = int32, shape = [1],
                data = [xt_cast X cpp_float cpp_int32_t (nearest X xt_round cpp_float 1069547520)]\<rparr>
     \<and> int64 \<noteq> float32 \<and> \<not> (is_integer int64 \<and> 8 \<le> bit_count int64 \<and> bit_count int64 \<le> 32)
     \<and> snd (GenericElementwiseConvert ConvertRoundFunctor X ?inp (Some int64) None False)
         = Inl (invalid_argument ''Invalid output dtype for converting nearest integer op'')"
    by simp
qed

text \<open>
  C4, as stated, fails: it is not so that every call on an unsupported input dtype ends
  in the unsupported-dtype failure with nothing allocated. \<open>round\<close> on the \<open>float64\<close>
  array \<open>[0.0, 0.0]\<close> with neither dtype nor output buffer does fail so, but only after
  \<open>for_host\<close> has allocated a \<open>float64\<close> buffer of shape \<open>[2]\<close>. The functors operate on
  pre-allocated outputs: the allocation of \<open>GenericElementwiseConvert\<close> precedes the
  dispatch.
\<close>

theorem unsupported_input_allocates_first_counterexample:
  "\<not> (\<forall>func X inp dtype_opt out_opt dv.
         input_case func (dtype inp) = None \<longrightarrow>
           (\<exists>e. snd (GenericElementwiseConvert func X inp dtype_opt out_opt dv) = Inl e
                \<and> unsupported_dtype e)
           \<and> fst (GenericElementwiseConvert func X inp dtype_opt out_opt dv) = [])"
proof
  let ?inp = "\<lparr>dtype = float64, shape = [2], data = [0, 0]\<rparr>"
  assume claim:
    "\<forall>func X inp dtype_opt out_opt dv.
       input_case func (dtype inp) = None \<longrightarrow>
         (\<exists>e. snd (GenericElementwiseConvert func X inp dtype_opt out_opt dv) = Inl e
              \<and> unsupported_dtype e)
         \<and> fst (GenericElementwiseConvert func X inp dtype_opt out_opt dv) = []"
  have unsupported: "input_case ConvertRoundFunctor (dtype ?inp) = None"
    by simp
  have allocated:
    "GenericElementwiseConvert ConvertRoundFunctor X ?inp None None False
       = ([for_host_call [2] float64 False],
          Inl (invalid_argument
            ''Unsupported dtype(float64) for converting nearest integer op''))" for X
    by (simp add: GenericElementwiseConvert_def ConvertNearest_Invoke_def)
  from claim unsupported
  have "fst (GenericElementwiseConvert ConvertRoundFunctor X ?inp None None False) = []" for X
    by blast
  with allocated show False
    by simp
qed

text \<open>
  C4, amended. A conversion-family call whose input dtype is outside the functor's
  dispatch table, and whose dtype and output buffer do not conflict, fails with the
  unsupported-dtype condition, and no buffer is written (a failing call returns no array).
  The failure is detected after the allocation step: when no output buffer was passed,
  one buffer of the input's shape and the decided dtype has been allocated; when a buffer
  was passed, nothing has. When dtype and output buffer conflict, the call fails before
  that with the mismatch error and allocates nothing.
\<close>

theorem unsupported_input_fails_after_allocation_step:
  "(input_case func (dtype inp) = None
      \<and> (case (dtype_opt, out_opt) of (Some dt, Some outp) \<Rightarrow> dtype outp = dt | _ \<Rightarrow> True)
    \<longrightarrow> (\<exists>e. snd (GenericElementwiseConvert func X inp dtype_opt out_opt dv) = Inl e
              \<and> unsupported_dtype e)
        \<and> fst (GenericElementwiseConvert func X inp dtype_opt out_opt dv)
            = (case out_opt of
                 None \<Rightarrow> [for_host_call (shape inp)
                            (case dtype_opt of None \<Rightarrow> dtype inp | Some dt \<Rightarrow> dt) dv]
               | Some outp \<Rightarrow> []))
   \<and> (dtype outp \<noteq> dt \<longrightarrow>
        GenericElementwiseConvert func X inp (Some dt) (Some outp) dv
          = ([], Inl (invalid_argument ''if both dtype and out are specified, they must match'')))"
proof -
  have unsupported:
    "(\<exists>e. snd (GenericElementwiseConvert func X inp dtype_opt out_opt dv) = Inl e
          \<and> unsupported_dtype e)
     \<and> fst (GenericElementwiseConvert func X inp dtype_opt out_opt dv)
         = (case out_opt of
              None \<Rightarrow> [for_host_call (shape inp)
                         (case dtype_opt of None \<Rightarrow> dtype inp | Some dt \<Rightarrow> dt) dv]
            | Some outp \<Rightarrow> [])"
    if u: "input_case func (dtype inp) = None"
      and c: "case (dtype_opt, out_opt) of (Some dt, Some outp) \<Rightarrow> dtype outp = dt | _ \<Rightarrow> True"
    using c Invoke_unsupported [OF u]
    by (cases dtype_opt; cases out_opt) (simp_all add: GenericElementwiseConvert_def)
  have conflict:
    "dtype outp \<noteq> dt \<Longrightarrow>
       GenericElementwiseConvert func X inp (Some dt) (Some outp) dv
         = ([], Inl (invalid_argument ''if both dtype and out are specified, they must match''))"
    by (simp add: GenericElementwiseConvert_def)
  from unsupported conflict show ?thesis
    by blast
qed

text \<open>
  \<open>convert\<close> on a \<open>bool8\<close> array, with dtype \<open>int8\<close> and no buffer: the failure comes
  after one \<open>int8\<close> buffer was allocated. With an \<open>int8\<close> buffer passed in, nothing is
  allocated. With dtype \<open>int8\<close> and an \<open>int16\<close> buffer, the mismatch error comes first.
\<close>

theorem unsupported_input_fails_after_allocation_step_witness:
  "\<forall>X. input_case ConvertFunctor bool8 = None
       \<and> (\<exists>e. snd (GenericElementwiseConvert ConvertFunctor X
                     \<lparr>dtype = bool8, shape = [1], data = [1]\<rparr> (Some int8) None False) = Inl e
              \<and> unsupported_dtype e)
       \<and> fst (GenericElementwiseConvert ConvertFunctor X
                \<lparr>dtype = bool8, shape = [1], data = [1]\<rparr> (Some int8) None False)
           = [for_host_call [1] int8 False]
       \<and> fst (GenericElementwiseConvert ConvertFunctor X
                \<lparr>dtype = bool8, shape = [1], data = [1]\<rparr> (Some int8)
                (Some \<lparr>dtype = int8, shape = [1], data = [7]\<rparr>) False)
           = []
       \<and> GenericElementwiseConvert ConvertFunctor X
            \<lparr>dtype = bool8, shape = [1], data = [1]\<rparr> (Some int8)
            (Some \<lparr>dtype = int16, shape = [1], data = [7]\<rparr>) False
           = ([], Inl (invalid_argument
                ''if both dtype and out are specified, they must match''))"
proof (intro allI)
  fix X
  let ?inp = "\<lparr>dtype = bool8, shape = [1], data = [1]\<rparr>"
  let ?o8 = "\<lparr>dtype = int8, shape = [1], data = [7]\<rparr>"
  let ?o16 = "\<lparr>dtype = int16, shape = [1], data = [7]\<rparr>"
  note t = unsupported_input_fails_after_allocation_step
             [where func = ConvertFunctor and X = X and inp = ?inp and dv = False]
  have u: "input_case ConvertFunctor (dtype ?inp) = None"
    by simp
  from t [where dtype_opt = "Some int8" and out_opt = None and outp = ?o16 and dt = int8] u
  have 1: "(\<exists>e. snd (GenericElementwiseConvert ConvertFunctor X ?inp (Some int8) None False)
                 = Inl e \<and> unsupported_dtype e)
           \<and> fst (GenericElementwiseConvert ConvertFunctor X ?inp (Some int8) None False)
               = [for_host_call [1] int8 False]
           \<and> GenericElementwiseConvert ConvertFunctor X ?inp (Some int8) (Some ?o16) False
               = ([], Inl (invalid_argument
                    ''if both dtype and out are specified, they must match''))"
    by simp
  from t [where dtype_opt = "Some int8" and out_opt = "Some ?o8" and outp = ?o16 and dt = int8] u
  have 2: "fst (GenericElementwiseConvert ConvertFunctor X ?inp (Some int8) (Some ?o8) False) = []"
    by simp
  from u 1 2
  show "input_case ConvertFunctor bool8 = None
       \<and> (\<exists>e. snd (GenericElementwiseConvert ConvertFunctor X ?inp (Some int8) None False) = Inl e
              \<and> unsupported_dtype e)
       \<and> fst (GenericElementwiseConvert ConvertFunctor X ?inp (Some int8) None False)
           = [for_host_call [1] int8 False]
       \<and> fst (GenericElementwiseConvert ConvertFunctor X ?inp (Some int8) (Some ?o8) False) = []
       \<and> GenericElementwiseConvert ConvertFunctor X ?inp (Some int8) (Some ?o16) False
           = ([], Inl (invalid_argument
                ''if both dtype and out are specified, they must match''))"
    by simp
qed

section \<open>Where the code departs from its contract\<close>

text \<open>
  C1. The store switch of \<open>ConvertFunctor\<close> pairs every tag with its own element type
  (\<open>int32\<close> with \<open>int32_t\<close>), and so does the dispatch switch of the four nearest-integer
  functors. The dispatch switches of \<open>ConvertFunctor::Invoke\<close> and of
  \<open>ElementwiseOperation\<close> agree with it on every tag but \<open>int32\<close>, which they pair with
  \<open>uint32_t\<close>. So an \<open>int32\<close> element \<open>-1\<close> (pattern \<open>0xFFFFFFFF\<close>) converted to \<open>int64\<close>
  becomes \<open>4294967295\<close>, while an \<open>int16\<close> element \<open>-1\<close> becomes \<open>-1\<close>.
\<close>

theorem int32_is_dispatched_as_uint32:
  "ConvertFunctor_store_case int32 = Some cpp_int32_t
   \<and> ConvertFunctor_input_case d
       = (if d = int32 then Some cpp_uint32_t else ConvertFunctor_store_case d)
   \<and> ElementwiseOperation_case d
       = (if d = int32 then Some cpp_uint32_t else ConvertFunctor_store_case d)
   \<and> ConvertNearest_input_case d
       = (if is_float d \<and> d \<noteq> float64 then ConvertFunctor_store_case d else None)
   \<and> read_int cpp_int32_t 4294967295 = - 1
   \<and> snd (GenericElementwiseConvert ConvertFunctor X
            \<lparr>dtype = int32, shape = [1], data = [4294967295]\<rparr> (Some int64) None False)
       = Inr \<lparr>dtype = int64, shape = [1], data = [4294967295]\<rparr>
   \<and> read_int cpp_int64_t 4294967295 = 4294967295
   \<and> read_int cpp_int16_t 65535 = - 1
   \<and> snd (GenericElementwiseConvert ConvertFunctor X
            \<lparr>dtype = int16, shape = [1], data = [65535]\<rparr> (Some int64) None False)
       = Inr \<lparr>dtype = int64, shape = [1], data = [18446744073709551615]\<rparr>
   \<and> read_int cpp_int64_t 18446744073709551615 = - 1"
proof -
  have tables:
    "ConvertFunctor_input_case d
       = (if d = int32 then Some cpp_uint32_t else ConvertFunctor_store_case d)
     \<and> ElementwiseOperation_case d
       = (if d = int32 then Some cpp_uint32_t else ConvertFunctor_store_case d)
     \<and> ConvertNearest_input_case d
       = (if is_float d \<and> d \<noteq> float64 then ConvertFunctor_store_case d else None)"
    by (cases d) simp_all
  have reads:
    "read_int cpp_int32_t 4294967295 = - 1"
    "read_int cpp_int64_t 4294967295 = 4294967295"
    "read_int cpp_int16_t 65535 = - 1"
    "read_int cpp_int64_t 18446744073709551615 = - 1"
    by (simp_all add: read_int_def)
  have from_int32:
    "snd (GenericElementwiseConvert ConvertFunctor X
            \<lparr>dtype = int32, shape = [1], data = [4294967295]\<rparr> (Some int64) None False)
       = Inr \<lparr>dtype = int64, shape = [1], data = [4294967295]\<rparr>"
    by (simp add: GenericElementwiseConvert_def ConvertFunctor_Invoke_def for_host_def
          xt_cast_def read_int_def write_int_def)
  have from_int16:
    "snd (GenericElementwiseConvert ConvertFunctor X
            \<lparr>dtype = int16, shape = [1], data = [65535]\<rparr> (Some int64) None False)
       = Inr \<lparr>dtype = int64, shape = [1], data = [18446744073709551615]\<rparr>"
    by (simp add: GenericElementwiseConvert_def ConvertFunctor_Invoke_def for_host_def
          xt_cast_def read_int_def write_int_def)
  from tables reads from_int32 from_int16 show ?thesis
    by simp
qed

text \<open>
  C8. The message of the unsupported-dtype failure is formatted from \<open>dtype.name()\<close>, the
  requested output dtype, where the dtype that has no case is \<open>input.dtype()\<close>. \<open>round\<close>
  on a \<open>float64\<close> array with dtype \<open>int32\<close> reports \<open>int32\<close>; \<open>convert\<close> on a \<open>bool8\<close>
  array with dtype \<open>float32\<close> reports \<open>float32\<close>, and as the operation the
  nearest-integer conversion.
\<close>

theorem unsupported_message_names_requested_dtype:
  "snd (GenericElementwiseConvert ConvertRoundFunctor X
          \<lparr>dtype = float64, shape = [1], data = [0]\<rparr> (Some int32) None False)
     = Inl (invalid_argument ''Unsupported dtype(int32) for converting nearest integer op'')
   \<and> snd (GenericElementwiseConvert ConvertFunctor X
          \<lparr>dtype = bool8, shape = [1], data = [1]\<rparr> (Some float32) None False)
     = Inl (invalid_argument ''Unsupported dtype(float32) for converting nearest integer op'')
   \<and> DType_name float64 = ''float64'' \<and> DType_name bool8 = ''bool8''"
  by (simp add: GenericElementwiseConvert_def ConvertFunctor_Invoke_def
        ConvertNearest_Invoke_def)

end
